theory Spec2Isabelle
  imports Complex_Main "HOL-Library.AList"
begin

section \<open>Python values\<close>

text \<open>
  The configuration toolbox of \<^verbatim>\<open>yawning_titan/config/toolbox/core.py\<close> stores plain
  Python scalars in its items. A scalar is \<^verbatim>\<open>None\<close>, a \<^verbatim>\<open>bool\<close>, an \<^verbatim>\<open>int\<close>
  (unbounded), a \<^verbatim>\<open>float\<close> or a \<^verbatim>\<open>str\<close>. A float is represented by the real number it
  denotes: the code only asks for its type and for its truth value.
\<close>

datatype pytype = T_NoneType | T_bool | T_int | T_float | T_str

datatype pyval = PyNone | PyBool bool | PyInt int | PyFloat real | PyStr string

fun py_type :: "pyval \<Rightarrow> pytype" where
  "py_type PyNone = T_NoneType"
| "py_type (PyBool b) = T_bool"
| "py_type (PyInt i) = T_int"
| "py_type (PyFloat r) = T_float"
| "py_type (PyStr s) = T_str"

text \<open>\<^verbatim>\<open>isinstance(val, t)\<close>: \<^verbatim>\<open>bool\<close> is a subclass of \<^verbatim>\<open>int\<close> in Python.\<close>

definition isinstance :: "pyval \<Rightarrow> pytype \<Rightarrow> bool" where
  "isinstance val t = (py_type val = t \<or> (py_type val = T_bool \<and> t = T_int))"

text \<open>The truth value Python gives a scalar in \<^verbatim>\<open>if x:\<close>.\<close>

fun truthy :: "pyval \<Rightarrow> bool" where
  "truthy PyNone = False"
| "truthy (PyBool b) = b"
| "truthy (PyInt i) = (i \<noteq> 0)"
| "truthy (PyFloat r) = (r \<noteq> 0)"
| "truthy (PyStr s) = (s \<noteq> [])"

text \<open>
  \<^verbatim>\<open>allow_null: Optional[bool] = None\<close> is tested with \<^verbatim>\<open>not self.allow_null\<close>, so an
  unset flag counts as false.
\<close>

fun truthy_flag :: "bool option \<Rightarrow> bool" where
  "truthy_flag None = False"
| "truthy_flag (Some b) = b"

section \<open>Failure messages and exceptions\<close>

text \<open>
  The two messages \<^verbatim>\<open>ItemTypeProperties.validate\<close> builds are f-strings. A message is
  represented by the values interpolated into its template:
  \<^item> \<open>NullNotPermitted val\<close> is \<^verbatim>\<open>f"Value {val} when allow_null is not permitted."\<close>;
  \<^item> \<open>WrongType val t ts\<close> is
    \<^verbatim>\<open>f"Value {val} is of type {type(val)}, should be " + " or ".join(map(str, ts)) + "."\<close>.
\<close>

datatype fail_reason =
    NullNotPermitted pyval
  | WrongType pyval pytype "pytype list"

text \<open>
  \<open>ConfigItemValidationError msg\<close> is the exception the checks raise and catch themselves.
  \<open>TypeError\<close> is what \<^verbatim>\<open>map(str, None)\<close> raises, \<open>AttributeError\<close> what an attribute
  access on \<^verbatim>\<open>None\<close> raises, \<open>IndexError\<close> what \<^verbatim>\<open>xs[0]\<close> raises on an empty list;
  nothing in the module catches these three.
\<close>

datatype error =
    ConfigItemValidationError fail_reason
  | TypeError
  | AttributeError
  | IndexError

section \<open>ConfigItemValidation\<close>

record ('m, 'e) config_item_validation =
  passed :: bool
  fail_reasons :: "'m list"
  fail_exceptions :: "'e list"

text \<open>
  The dataclass constructor with its \<^verbatim>\<open>__post_init__\<close>: the optional single reason and
  exception become lists of at most one entry.
\<close>

definition ConfigItemValidation ::
  "bool \<Rightarrow> 'm option \<Rightarrow> 'e option \<Rightarrow> ('m, 'e) config_item_validation" where
  "ConfigItemValidation p fail_reason fail_exception =
     \<lparr>passed = p,
      fail_reasons = (case fail_reason of Some r \<Rightarrow> [r] | None \<Rightarrow> []),
      fail_exceptions = (case fail_exception of Some e \<Rightarrow> [e] | None \<Rightarrow> [])\<rparr>"

text \<open>\<^verbatim>\<open>ConfigItemValidation.add_validation\<close>: both lists are appended to unconditionally.\<close>

definition item_add_validation ::
  "('m, 'e) config_item_validation \<Rightarrow> 'm \<Rightarrow> 'e \<Rightarrow> ('m, 'e) config_item_validation" where
  "item_add_validation self fail_reason exception =
     self\<lparr>passed := False,
          fail_reasons := fail_reasons self @ [fail_reason],
          fail_exceptions := fail_exceptions self @ [exception]\<rparr>"

section \<open>ItemTypeProperties\<close>

text \<open>
  All three fields of the dataclass default to \<^verbatim>\<open>None\<close>; \<open>allowed_types\<close> and
  \<open>allow_null\<close> are options for that reason, and an absent default is \<open>PyNone\<close>.
\<close>

record item_type_properties =
  allowed_types :: "pytype list option"
  allow_null :: "bool option"
  default_value :: pyval

text \<open>
  \<^verbatim>\<open>ItemTypeProperties.validate\<close>. Each of the two checks raises
  \<^verbatim>\<open>ConfigItemValidationError\<close> inside its own \<^verbatim>\<open>try\<close> and records it in the
  \<^verbatim>\<open>except\<close> clause. The type check tests against the literal list
  \<^verbatim>\<open>[int, float]\<close>; \<open>allowed_types\<close> is only read to build the message, where
  \<^verbatim>\<open>map(str, self.allowed_types)\<close> raises \<^verbatim>\<open>TypeError\<close> when the field is unset.
\<close>

definition properties_validate ::
  "item_type_properties \<Rightarrow> pyval \<Rightarrow> error + (fail_reason, error) config_item_validation" where
  "properties_validate self val =
     (let validation = ConfigItemValidation True None None;
          validation =
            (if \<not> truthy_flag (allow_null self) \<and> val = PyNone
             then (let msg = NullNotPermitted val
                   in item_add_validation validation msg (ConfigItemValidationError msg))
             else validation)
      in if \<not> (\<exists>t \<in> set [T_int, T_float]. isinstance val t)
         then (case allowed_types self of
                 None \<Rightarrow> Inl TypeError
               | Some ts \<Rightarrow>
                   (let msg = WrongType val (py_type val) ts
                    in Inr (item_add_validation validation msg (ConfigItemValidationError msg))))
         else Inr validation)"

text \<open>
  The dataclass constructor with \<^verbatim>\<open>__post_init__\<close>: a truthy default is validated and
  the first recorded exception is raised when it fails.
\<close>

definition ItemTypeProperties ::
  "pytype list option \<Rightarrow> bool option \<Rightarrow> pyval \<Rightarrow> error + item_type_properties" where
  "ItemTypeProperties ats an d =
     (let self = \<lparr>allowed_types = ats, allow_null = an, default_value = d\<rparr>
      in if truthy d
         then (case properties_validate self d of
                 Inl e \<Rightarrow> Inl e
               | Inr validated_default \<Rightarrow>
                   if \<not> passed validated_default
                   then (case fail_exceptions validated_default of
                           e # _ \<Rightarrow> Inl e
                         | [] \<Rightarrow> Inl IndexError)
                   else Inr self)
         else Inr self)"

section \<open>ConfigItem\<close>

text \<open>
  The dataclass \<^verbatim>\<open>ConfigItem\<close>. Its field \<^verbatim>\<open>value\<close> is called \<open>item_value\<close> here.
  \<^verbatim>\<open>validation\<close> defaults to \<^verbatim>\<open>None\<close> and is filled by \<^verbatim>\<open>__post_init__\<close>.
\<close>

record config_item =
  item_value :: pyval
  doc :: "string option"
  properties :: "item_type_properties option"
  validation :: "(fail_reason, error) config_item_validation option"

text \<open>
  \<^verbatim>\<open>ConfigItem.validate\<close>: validates the current value against the properties and
  returns the result; the item itself is not changed.
\<close>

definition item_validate ::
  "config_item \<Rightarrow> error + (fail_reason, error) config_item_validation" where
  "item_validate self =
     (case properties self of
        Some p \<Rightarrow> properties_validate p (item_value self)
      | None \<Rightarrow> Inr (ConfigItemValidation True None None))"

text \<open>\<^verbatim>\<open>ConfigItem.set_value\<close>: writes \<^verbatim>\<open>self.__dict__["value"]\<close> and nothing else.\<close>

definition set_value :: "config_item \<Rightarrow> pyval \<Rightarrow> config_item" where
  "set_value self v = self\<lparr>item_value := v\<rparr>"

text \<open>
  \<^verbatim>\<open>ConfigItem.__setattr__\<close> for the name \<^verbatim>\<open>"value"\<close>: the value is stored, then
  \<^verbatim>\<open>self.validate()\<close> is called and its result dropped. Only an exception of that call
  is visible to the caller.
\<close>

definition setattr_value :: "config_item \<Rightarrow> pyval \<Rightarrow> error + config_item" where
  "setattr_value self v =
     (let self = self\<lparr>item_value := v\<rparr>
      in case item_validate self of
           Inl e \<Rightarrow> Inl e
         | Inr _ \<Rightarrow> Inr self)"

text \<open>
  The constructor with \<^verbatim>\<open>__post_init__\<close>. The assignments of the generated
  \<^verbatim>\<open>__init__\<close> raise nothing: when \<^verbatim>\<open>value\<close> is assigned, \<^verbatim>\<open>properties\<close> is still the
  class default \<^verbatim>\<open>None\<close>. Without properties both \<^verbatim>\<open>self.properties.default\<close> and
  \<^verbatim>\<open>self.properties.validate\<close> raise \<^verbatim>\<open>AttributeError\<close>. The default replaces a
  \<^verbatim>\<open>None\<close> value only when it is truthy, by an assignment to \<^verbatim>\<open>value\<close>.
\<close>

definition ConfigItem ::
  "pyval \<Rightarrow> string option \<Rightarrow> item_type_properties option \<Rightarrow> error + config_item" where
  "ConfigItem v d props =
     (let self = \<lparr>item_value = v, doc = d, properties = props, validation = None\<rparr>
      in case props of
           None \<Rightarrow> Inl AttributeError
         | Some p \<Rightarrow>
             (case (if v = PyNone \<and> truthy (default_value p)
                    then setattr_value self (default_value p)
                    else Inr self) of
                Inl e \<Rightarrow> Inl e
              | Inr self \<Rightarrow>
                  (case properties_validate p (item_value self) of
                     Inl e \<Rightarrow> Inl e
                   | Inr r \<Rightarrow> Inr (self\<lparr>validation := Some r\<rparr>))))"

section \<open>ConfigGroupValidation\<close>

text \<open>
  A group validation holds its own flag and lists, and \<^verbatim>\<open>_element_validation\<close>: a
  dictionary from element names to the validation of each element, which is a
  \<^verbatim>\<open>ConfigItemValidation\<close> (\<open>Inl\<close>) or a \<^verbatim>\<open>ConfigGroupValidation\<close> (\<open>Inr\<close>). A dictionary
  is an association list in insertion order; \<^verbatim>\<open>d[k] = v\<close> is \<^const>\<open>AList.update\<close>, which
  keeps the place of a key already present and appends a new one.

  Equality on \<open>'e\<close> stands for the test \<^verbatim>\<open>exception not in self.fail_exceptions\<close>.
\<close>

datatype ('m, 'e) config_group_validation =
  GroupValidation
    (g_passed: bool)
    (g_fail_reasons: "'m list")
    (g_fail_exceptions: "'e list")
    (element_validation:
      "(string \<times> (('m, 'e) config_item_validation + ('m, 'e) config_group_validation)) list")

type_synonym ('m, 'e) element_validation_entry =
  "('m, 'e) config_item_validation + ('m, 'e) config_group_validation"

definition ConfigGroupValidation ::
  "bool \<Rightarrow> 'm option \<Rightarrow> 'e option \<Rightarrow> ('m, 'e) config_group_validation" where
  "ConfigGroupValidation p fail_reason fail_exception =
     GroupValidation p
       (case fail_reason of Some r \<Rightarrow> [r] | None \<Rightarrow> [])
       (case fail_exception of Some e \<Rightarrow> [e] | None \<Rightarrow> [])
       []"

text \<open>The attribute \<^verbatim>\<open>passed\<close> of an entry of either class.\<close>

fun entry_passed :: "('m, 'e) element_validation_entry \<Rightarrow> bool" where
  "entry_passed (Inl iv) = passed iv"
| "entry_passed (Inr gv) = g_passed gv"

definition add_element_validation ::
  "('m, 'e) config_group_validation \<Rightarrow> string \<Rightarrow> ('m, 'e) element_validation_entry
     \<Rightarrow> ('m, 'e) config_group_validation" where
  "add_element_validation self element_name v =
     GroupValidation (g_passed self) (g_fail_reasons self) (g_fail_exceptions self)
       (AList.update element_name v (element_validation self))"

text \<open>
  \<^verbatim>\<open>ConfigGroupValidation.add_validation\<close>: a reason and an exception are appended only
  when not yet in their list.
\<close>

definition group_add_validation ::
  "('m, 'e) config_group_validation \<Rightarrow> 'm \<Rightarrow> 'e \<Rightarrow> ('m, 'e) config_group_validation" where
  "group_add_validation self fail_reason exception =
     GroupValidation False
       (if fail_reason \<notin> set (g_fail_reasons self)
        then g_fail_reasons self @ [fail_reason] else g_fail_reasons self)
       (if exception \<notin> set (g_fail_exceptions self)
        then g_fail_exceptions self @ [exception] else g_fail_exceptions self)
       (element_validation self)"

text \<open>The property \<^verbatim>\<open>group_passed\<close>: \<^verbatim>\<open>all(v.passed for v in element_validation.values())\<close>.\<close>

definition group_passed :: "('m, 'e) config_group_validation \<Rightarrow> bool" where
  "group_passed self = list_all entry_passed (map snd (element_validation self))"

text \<open>
  The dictionary \<^verbatim>\<open>to_dict\<close> returns maps a name to the string \<^verbatim>\<open>"Passed"\<close>, to a list
  of reasons, or to a nested dictionary.
\<close>

datatype 'm error_tree =
    Passed
  | Reasons "'m list"
  | Nested "(string \<times> 'm error_tree) list"

text \<open>
  \<^verbatim>\<open>ConfigGroupValidation.to_dict\<close>; \<open>to_dict_elements\<close> is its loop over
  \<^verbatim>\<open>self.element_validation.items()\<close>, with the dictionary \<^verbatim>\<open>d\<close> built so far. The
  parameter \<^verbatim>\<open>root\<close> is called \<open>is_root\<close>.
\<close>

function (sequential) to_dict ::
      "('m, 'e) config_group_validation \<Rightarrow> string \<Rightarrow> bool \<Rightarrow> (string \<times> 'm error_tree) list"
  and to_dict_elements ::
      "(string \<times> ('m, 'e) element_validation_entry) list \<Rightarrow> (string \<times> 'm error_tree) list
         \<Rightarrow> (string \<times> 'm error_tree) list" where
  "to_dict (GroupValidation p rs es ev) element_name is_root =
     (let d = to_dict_elements ev (if p then [] else [(''group'', Reasons rs)])
      in if is_root
         then (if d = [] then [(element_name, Passed)] else [(element_name, Nested d)])
         else d)"
| "to_dict_elements [] d = d"
| "to_dict_elements ((e, Inr gv) # rest) d =
     to_dict_elements rest
       (if \<not> group_passed gv \<or> \<not> g_passed gv
        then AList.update e (Nested (to_dict gv e False)) d
        else if \<not> g_passed gv
        then AList.update e (Reasons (g_fail_reasons gv)) d
        else d)"
| "to_dict_elements ((e, Inl iv) # rest) d =
     to_dict_elements rest
       (if \<not> passed iv then AList.update e (Reasons (fail_reasons iv)) d else d)"
  by pat_completeness auto
termination
  by (relation "measure (case_sum (\<lambda>(gv, n, r). size gv)
        (\<lambda>(ev, d). size_list (size_prod (\<lambda>_. 0) (size_sum (\<lambda>_. 0) size)) ev))") auto

section \<open>ConfigGroup\<close>

text \<open>
  A group has a \<^verbatim>\<open>doc\<close>, its config elements (the attributes that are a
  \<^verbatim>\<open>ConfigItem\<close>, \<open>Inl\<close>, or a \<^verbatim>\<open>ConfigGroup\<close>, \<open>Inr\<close>, in the order of the object's
  \<^verbatim>\<open>__dict__\<close>, which is what \<^verbatim>\<open>get_config_elements\<close> returns) and the attribute
  \<^verbatim>\<open>validation\<close>, absent until \<^verbatim>\<open>validate\<close> has run once.
\<close>

datatype config_group =
  Group
    (group_doc: "string option")
    (get_config_elements: "(string \<times> (config_item + config_group)) list")
    (group_validation: "(fail_reason, error) config_group_validation option")

type_synonym config_element = "config_item + config_group"

text \<open>
  \<^verbatim>\<open>ConfigGroup.validate\<close> and \<^verbatim>\<open>validate_elements\<close>. The validation object is created
  when the attribute is missing and is otherwise kept; each element's \<^verbatim>\<open>validate()\<close>
  result is stored under the element's name. A group element's \<^verbatim>\<open>validate()\<close> updates that
  group and returns its validation object. Both functions return the updated object together
  with the validation; an exception of an item's \<^verbatim>\<open>validate()\<close> ends the call.
\<close>

function (sequential) group_validate ::
      "config_group \<Rightarrow> error + (config_group \<times> (fail_reason, error) config_group_validation)"
  and validate_elements ::
      "(string \<times> config_element) list \<Rightarrow> (fail_reason, error) config_group_validation
         \<Rightarrow> error + ((string \<times> config_element) list
                      \<times> (fail_reason, error) config_group_validation)" where
  "group_validate (Group d els v) =
     (case validate_elements els
             (case v of None \<Rightarrow> ConfigGroupValidation True None None | Some x \<Rightarrow> x) of
        Inl e \<Rightarrow> Inl e
      | Inr (els', vld') \<Rightarrow> Inr (Group d els' (Some vld'), vld'))"
| "validate_elements [] vld = Inr ([], vld)"
| "validate_elements ((k, Inl item) # rest) vld =
     (case item_validate item of
        Inl e \<Rightarrow> Inl e
      | Inr r \<Rightarrow>
          (case validate_elements rest (add_element_validation vld k (Inl r)) of
             Inl e \<Rightarrow> Inl e
           | Inr (rest', vld') \<Rightarrow> Inr ((k, Inl item) # rest', vld')))"
| "validate_elements ((k, Inr g) # rest) vld =
     (case group_validate g of
        Inl e \<Rightarrow> Inl e
      | Inr (g', r) \<Rightarrow>
          (case validate_elements rest (add_element_validation vld k (Inr r)) of
             Inl e \<Rightarrow> Inl e
           | Inr (rest', vld') \<Rightarrow> Inr ((k, Inr g') # rest', vld')))"
  by pat_completeness auto
termination
  by (relation "measure (case_sum size
        (\<lambda>(els, v). size_list (size_prod (\<lambda>_. 0) (size_sum (\<lambda>_. 0) size)) els))") auto

text \<open>
  \<^verbatim>\<open>element.validate()\<close> as \<^verbatim>\<open>validate_elements\<close> calls it on an element of either
  class: the element after the call and the validation returned.
\<close>

fun element_validate ::
  "config_element \<Rightarrow> error + (config_element \<times> (fail_reason, error) element_validation_entry)"
  where
  "element_validate (Inl item) =
     (case item_validate item of Inl e \<Rightarrow> Inl e | Inr r \<Rightarrow> Inr (Inl item, Inl r))"
| "element_validate (Inr g) =
     (case group_validate g of Inl e \<Rightarrow> Inl e | Inr (g', r) \<Rightarrow> Inr (Inr g', Inr r))"

text \<open>
  \<^verbatim>\<open>ConfigGroup.__init__\<close>, called by a subclass after it has set its elements: the
  \<^verbatim>\<open>doc\<close> is stored and the group validated for the first time.
\<close>

definition ConfigGroup ::
  "string option \<Rightarrow> (string \<times> config_element) list \<Rightarrow> error + config_group" where
  "ConfigGroup d els = map_sum id fst (group_validate (Group d els None))"

section \<open>Setting a group from a dictionary\<close>

text \<open>
  The dictionary given to \<^verbatim>\<open>set_from_dict\<close>: a key is an attribute name, a value is a
  scalar or again a dictionary (\<^verbatim>\<open>type(v) == dict\<close>).
\<close>

datatype config_data =
    Scalar pyval
  | Dict "(string \<times> config_data) list"

text \<open>
  \<open>set_element element v\<close> is the body of the loop of \<^verbatim>\<open>set_from_dict\<close> once
  \<^verbatim>\<open>element = getattr(self, element_name, None)\<close> is a config element: a dictionary is
  passed on to a group with \<^verbatim>\<open>root=False\<close>, a non-dictionary is given to an item's
  \<^verbatim>\<open>set_value\<close>, any other combination does nothing. \<open>set_elements\<close> is the loop over
  \<^verbatim>\<open>config_dict.items()\<close>; a name that is not a config element of the group is
  skipped, since then neither \<^verbatim>\<open>isinstance\<close> test holds. The element is changed in place,
  so it keeps its position.
\<close>

function (sequential) set_element :: "config_element \<Rightarrow> config_data \<Rightarrow> config_element"
  and set_elements ::
      "(string \<times> config_element) list \<Rightarrow> (string \<times> config_data) list
         \<Rightarrow> (string \<times> config_element) list" where
  "set_element (Inr (Group d els v)) (Dict config_dict) =
     Inr (Group d (set_elements els config_dict) v)"
| "set_element (Inl item) (Scalar x) = Inl (set_value item x)"
| "set_element element _ = element"
| "set_elements els [] = els"
| "set_elements els ((element_name, v) # rest) =
     set_elements
       (case map_of els element_name of
          None \<Rightarrow> els
        | Some element \<Rightarrow> AList.update element_name (set_element element v) els)
       rest"
  by pat_completeness auto
termination
  by (relation "measure (case_sum (\<lambda>(el, v). size v)
        (\<lambda>(els, cd). size_list (size_prod (\<lambda>_. 0) size) cd))") auto

text \<open>
  \<^verbatim>\<open>ConfigGroup.set_from_dict\<close>: all assignments, then \<^verbatim>\<open>self.validate()\<close> when
  \<^verbatim>\<open>root\<close> (here \<open>is_root\<close>) is true.
\<close>

definition set_from_dict ::
  "config_group \<Rightarrow> (string \<times> config_data) list \<Rightarrow> bool \<Rightarrow> error + config_group" where
  "set_from_dict self config_dict is_root =
     (let self = Group (group_doc self)
                   (set_elements (get_config_elements self) config_dict)
                   (group_validation self)
      in if is_root then map_sum id fst (group_validate self) else Inr self)"

section \<open>Properties of item validation\<close>

text \<open>
  The type check of \<^const>\<open>properties_validate\<close> passes exactly the values that are an
  instance of \<^verbatim>\<open>int\<close> or \<^verbatim>\<open>float\<close>: integers, floats and, as a subclass of
  \<^verbatim>\<open>int\<close>, booleans.
\<close>

lemma int_or_float_iff:
  "(\<exists>t \<in> set [T_int, T_float]. isinstance val t) \<longleftrightarrow>
     py_type val \<in> {T_bool, T_int, T_float}"
  by (auto simp: isinstance_def)

text \<open>The result of a validation when \<open>allowed_types\<close> is a list: no exception.\<close>

lemma properties_validate_Some:
  "allowed_types self = Some ts \<Longrightarrow>
   properties_validate self val =
     Inr \<lparr>passed = \<not> ((\<not> truthy_flag (allow_null self) \<and> val = PyNone)
                        \<or> py_type val \<notin> {T_bool, T_int, T_float}),
          fail_reasons =
            (if \<not> truthy_flag (allow_null self) \<and> val = PyNone
             then [NullNotPermitted val] else []) @
            (if py_type val \<notin> {T_bool, T_int, T_float}
             then [WrongType val (py_type val) ts] else []),
          fail_exceptions =
            (if \<not> truthy_flag (allow_null self) \<and> val = PyNone
             then [ConfigItemValidationError (NullNotPermitted val)] else []) @
            (if py_type val \<notin> {T_bool, T_int, T_float}
             then [ConfigItemValidationError (WrongType val (py_type val) ts)] else [])\<rparr>"
  unfolding properties_validate_def int_or_float_iff
  by (simp add: ConfigItemValidation_def item_add_validation_def Let_def)

text \<open>
  With \<open>allowed_types\<close> unset the message of the type check cannot be built, and the
  \<^verbatim>\<open>TypeError\<close> leaves \<^verbatim>\<open>validate\<close>.
\<close>

lemma properties_validate_None:
  "allowed_types self = None \<Longrightarrow>
   properties_validate self val =
     (if py_type val \<in> {T_bool, T_int, T_float}
      then Inr \<lparr>passed = True, fail_reasons = [], fail_exceptions = []\<rparr>
      else Inl TypeError)"
  unfolding properties_validate_def int_or_float_iff
  by (cases val) (simp_all add: ConfigItemValidation_def item_add_validation_def Let_def)

subsection \<open>C2: the type check\<close>

text \<open>
  Claim C2 says that \<^verbatim>\<open>validate(v)\<close> records a type mismatch exactly when the type of
  \<^verbatim>\<open>v\<close> is not among \<open>allowed_types\<close>, and that a boolean never satisfies an int or
  float constraint. The code tests against the fixed list \<^verbatim>\<open>[int, float]\<close>: a string is
  reported as a mismatch although \<^verbatim>\<open>str\<close> is the one allowed type, and \<^verbatim>\<open>True\<close> passes
  under the allowed types \<^verbatim>\<open>[int, float]\<close>.
\<close>

theorem validate_type_check_failing_input:
  "properties_validate
     \<lparr>allowed_types = Some [T_str], allow_null = Some False, default_value = PyNone\<rparr>
     (PyStr ''abc'') =
   Inr \<lparr>passed = False,
        fail_reasons = [WrongType (PyStr ''abc'') T_str [T_str]],
        fail_exceptions = [ConfigItemValidationError (WrongType (PyStr ''abc'') T_str [T_str])]\<rparr>
   \<and> properties_validate
     \<lparr>allowed_types = Some [T_int, T_float], allow_null = Some False, default_value = PyNone\<rparr>
     (PyBool True) =
   Inr \<lparr>passed = True, fail_reasons = [], fail_exceptions = []\<rparr>"
  by (simp add: properties_validate_Some)

subsection \<open>C5: validation returns every failure and does not raise\<close>

text \<open>
  Claim C5 as stated, for every \<^verbatim>\<open>ItemTypeProperties\<close>, fails where \<open>allowed_types\<close>
  is left at its default \<^verbatim>\<open>None\<close>: validating a string raises \<^verbatim>\<open>TypeError\<close>.
\<close>

theorem validate_raises_counterexample:
  "properties_validate
     \<lparr>allowed_types = None, allow_null = Some True, default_value = PyNone\<rparr>
     (PyStr ''abc'') = Inl TypeError"
  by (simp add: properties_validate_None)

text \<open>
  Claim C5, amended: for every \<^verbatim>\<open>ItemTypeProperties\<close> whose \<open>allowed_types\<close> is a list and
  every value, \<^verbatim>\<open>validate(v)\<close> returns a \<^verbatim>\<open>ConfigItemValidation\<close> and raises nothing,
  and the checks that are violated together are all recorded in that one result. The null
  failure is recorded exactly when \<^verbatim>\<open>v\<close> is \<^verbatim>\<open>None\<close> and nulls are not allowed, and it
  is followed by all that the type check records for \<^verbatim>\<open>v\<close> when nulls are allowed: neither
  check hides the other. A \<^verbatim>\<open>None\<close> value with nulls not allowed and \<^verbatim>\<open>NoneType\<close> not
  among the allowed types yields the null failure and the type failure in the same call. The
  result has passed exactly when no failure is recorded, and every recorded reason comes with
  its exception.
\<close>

theorem validate_records_all_failures:
  assumes "allowed_types self = Some ts"
  shows "\<exists>r. properties_validate self val = Inr r
           \<and> (NullNotPermitted val \<in> set (fail_reasons r)
                \<longleftrightarrow> \<not> truthy_flag (allow_null self) \<and> val = PyNone)
           \<and> (\<exists>r'. properties_validate (self\<lparr>allow_null := Some True\<rparr>) val = Inr r'
                  \<and> fail_reasons r =
                      (if \<not> truthy_flag (allow_null self) \<and> val = PyNone
                       then [NullNotPermitted val] else []) @ fail_reasons r')
           \<and> (passed r \<longleftrightarrow> fail_reasons r = [])
           \<and> fail_exceptions r = map ConfigItemValidationError (fail_reasons r)
           \<and> (\<not> truthy_flag (allow_null self) \<and> val = PyNone \<and> T_NoneType \<notin> set ts \<longrightarrow>
                fail_reasons r = [NullNotPermitted PyNone, WrongType PyNone T_NoneType ts])"
proof -
  from assms have a: "allowed_types (self\<lparr>allow_null := Some True\<rparr>) = Some ts" by simp
  show ?thesis
    unfolding properties_validate_Some [OF assms] properties_validate_Some [OF a]
    by (cases val) auto
qed

theorem validate_records_all_failures_witness:
  "\<exists>r. properties_validate
          \<lparr>allowed_types = Some [T_int], allow_null = Some False, default_value = PyNone\<rparr>
          PyNone = Inr r
       \<and> fail_reasons r = [NullNotPermitted PyNone, WrongType PyNone T_NoneType [T_int]]"
proof -
  let ?self = "\<lparr>allowed_types = Some [T_int], allow_null = Some False,
                default_value = PyNone\<rparr>"
  have a: "allowed_types ?self = Some [T_int]" by simp
  have h: "\<not> truthy_flag (allow_null ?self) \<and> PyNone = PyNone \<and> T_NoneType \<notin> set [T_int]"
    by simp
  from validate_records_all_failures [OF a, of PyNone] obtain r where
    r: "properties_validate ?self PyNone = Inr r" and
    i: "\<not> truthy_flag (allow_null ?self) \<and> PyNone = PyNone \<and> T_NoneType \<notin> set [T_int] \<longrightarrow>
          fail_reasons r = [NullNotPermitted PyNone, WrongType PyNone T_NoneType [T_int]]"
    by blast
  from i h have "fail_reasons r = [NullNotPermitted PyNone, WrongType PyNone T_NoneType [T_int]]"
    by (rule mp)
  with r show ?thesis by blast
qed

subsection \<open>C6: the default is validated at construction\<close>

lemma properties_validate_not_passed:
  assumes "properties_validate self val = Inr r" and "\<not> passed r"
  shows "fail_exceptions r \<noteq> []"
proof (cases "allowed_types self")
  case None
  with assms show ?thesis
    by (simp add: properties_validate_None split: if_splits) auto
next
  case (Some ts)
  from assms(1) have "r = projr (properties_validate self val)" by simp
  with assms(2) show ?thesis
    unfolding properties_validate_Some [OF Some] by (auto split: if_splits)
qed

lemma ItemTypeProperties_truthy:
  "truthy d \<Longrightarrow>
   ItemTypeProperties ats an d =
     (case properties_validate \<lparr>allowed_types = ats, allow_null = an, default_value = d\<rparr> d of
        Inl e \<Rightarrow> Inl e
      | Inr r \<Rightarrow>
          if passed r then Inr \<lparr>allowed_types = ats, allow_null = an, default_value = d\<rparr>
          else (case fail_exceptions r of e # _ \<Rightarrow> Inl e | [] \<Rightarrow> Inl IndexError))"
  by (simp add: ItemTypeProperties_def Let_def split: sum.splits)

lemma ItemTypeProperties_falsy:
  "\<not> truthy d \<Longrightarrow>
   ItemTypeProperties ats an d = Inr \<lparr>allowed_types = ats, allow_null = an, default_value = d\<rparr>"
  by (simp add: ItemTypeProperties_def)

lemma truthy_default_cases:
  assumes "truthy d"
  shows "(\<forall>self. ItemTypeProperties ats an d = Inr self \<longrightarrow>
            self = \<lparr>allowed_types = ats, allow_null = an, default_value = d\<rparr>
            \<and> (\<exists>r. properties_validate self d = Inr r \<and> passed r))
       \<and> (\<forall>r. properties_validate
                 \<lparr>allowed_types = ats, allow_null = an, default_value = d\<rparr> d = Inr r
               \<and> \<not> passed r \<longrightarrow>
               fail_exceptions r \<noteq> []
               \<and> ItemTypeProperties ats an d = Inl (hd (fail_exceptions r)))
       \<and> (\<forall>e. properties_validate
                 \<lparr>allowed_types = ats, allow_null = an, default_value = d\<rparr> d = Inl e \<longrightarrow>
               ItemTypeProperties ats an d = Inl e)"
proof -
  let ?self = "\<lparr>allowed_types = ats, allow_null = an, default_value = d\<rparr>"
  note eq = ItemTypeProperties_truthy [OF assms, of ats an]
  show ?thesis
  proof (cases "properties_validate ?self d")
    case (Inl e)
    then show ?thesis by (simp add: eq)
  next
    case (Inr r)
    show ?thesis
    proof (cases "passed r")
      case True
      with Inr show ?thesis by (simp add: eq)
    next
      case False
      with Inr have "fail_exceptions r \<noteq> []"
        by (rule properties_validate_not_passed)
      then obtain e es where "fail_exceptions r = e # es"
        by (cases "fail_exceptions r") simp_all
      with Inr False show ?thesis by (simp add: eq)
    qed
  qed
qed

text \<open>
  Claim C6 as stated, for every default that is present, fails for a present default that is
  falsy: \<^verbatim>\<open>__post_init__\<close> tests \<^verbatim>\<open>if self.default:\<close>, so the empty string is accepted
  as the default of an int-only item although it does not pass \<^verbatim>\<open>validate\<close>.
\<close>

theorem default_not_validated_counterexample:
  "ItemTypeProperties (Some [T_int]) (Some False) (PyStr '''') =
     Inr \<lparr>allowed_types = Some [T_int], allow_null = Some False, default_value = PyStr ''''\<rparr>
   \<and> properties_validate
         \<lparr>allowed_types = Some [T_int], allow_null = Some False, default_value = PyStr ''''\<rparr>
         (PyStr '''') =
       Inr \<lparr>passed = False,
            fail_reasons = [WrongType (PyStr '''') T_str [T_int]],
            fail_exceptions = [ConfigItemValidationError (WrongType (PyStr '''') T_str [T_int])]\<rparr>"
  by (simp add: ItemTypeProperties_def properties_validate_Some)

text \<open>
  Claim C6, amended: construction validates the default exactly when the default is truthy.
  For a truthy default: a successful construction returns the properties as given and the
  default passes their \<^verbatim>\<open>validate\<close>; a default whose validation does not pass makes the
  construction raise the first recorded exception; an exception of \<^verbatim>\<open>validate\<close> itself
  leaves the constructor. A falsy default (\<^verbatim>\<open>None\<close>, \<^verbatim>\<open>False\<close>, \<^verbatim>\<open>0\<close>, \<^verbatim>\<open>0.0\<close>,
  the empty string) is accepted without being validated.
\<close>

theorem truthy_default_validated:
  "(truthy d \<longrightarrow>
      (\<forall>self. ItemTypeProperties ats an d = Inr self \<longrightarrow>
         self = \<lparr>allowed_types = ats, allow_null = an, default_value = d\<rparr>
         \<and> (\<exists>r. properties_validate self d = Inr r \<and> passed r))
      \<and> (\<forall>r. properties_validate
                \<lparr>allowed_types = ats, allow_null = an, default_value = d\<rparr> d = Inr r
              \<and> \<not> passed r \<longrightarrow>
              fail_exceptions r \<noteq> []
              \<and> ItemTypeProperties ats an d = Inl (hd (fail_exceptions r)))
      \<and> (\<forall>e. properties_validate
                \<lparr>allowed_types = ats, allow_null = an, default_value = d\<rparr> d = Inl e \<longrightarrow>
              ItemTypeProperties ats an d = Inl e))
   \<and> (\<not> truthy d \<longrightarrow>
        ItemTypeProperties ats an d =
          Inr \<lparr>allowed_types = ats, allow_null = an, default_value = d\<rparr>)"
  using truthy_default_cases [of d ats an] ItemTypeProperties_falsy [of d ats an]
  by blast

theorem truthy_default_validated_witness:
  "truthy (PyStr ''a'')
   \<and> ItemTypeProperties (Some [T_int]) (Some False) (PyStr ''a'') =
       Inl (ConfigItemValidationError (WrongType (PyStr ''a'') T_str [T_int]))
   \<and> \<not> truthy (PyInt 0)
   \<and> ItemTypeProperties (Some [T_int]) (Some False) (PyInt 0) =
       Inr \<lparr>allowed_types = Some [T_int], allow_null = Some False, default_value = PyInt 0\<rparr>"
proof -
  let ?self = "\<lparr>allowed_types = Some [T_int], allow_null = Some False,
                default_value = PyStr ''a''\<rparr>"
  let ?r = "\<lparr>passed = False,
             fail_reasons = [WrongType (PyStr ''a'') T_str [T_int]],
             fail_exceptions =
               [ConfigItemValidationError (WrongType (PyStr ''a'') T_str [T_int])]\<rparr>"
  have t: "truthy (PyStr ''a'')" by simp
  have f: "\<not> truthy (PyInt 0)" by simp
  have v: "properties_validate ?self (PyStr ''a'') = Inr ?r \<and> \<not> passed ?r"
    by (simp add: properties_validate_Some)
  have "fail_exceptions ?r \<noteq> [] \<and>
        ItemTypeProperties (Some [T_int]) (Some False) (PyStr ''a'') =
          Inl (hd (fail_exceptions ?r))"
    using truthy_default_validated [of "PyStr ''a''" "Some [T_int]" "Some False",
            THEN conjunct1, THEN mp, OF t, THEN conjunct2, THEN conjunct1, THEN spec, of ?r] v
    by (rule mp)
  moreover have "ItemTypeProperties (Some [T_int]) (Some False) (PyInt 0) =
       Inr \<lparr>allowed_types = Some [T_int], allow_null = Some False, default_value = PyInt 0\<rparr>"
    using truthy_default_validated [of "PyInt 0" "Some [T_int]" "Some False",
            THEN conjunct2] f
    by (rule mp)
  ultimately show ?thesis using t f by simp
qed

section \<open>Properties of items\<close>

lemma setattr_value_Some:
  "properties self = Some p \<Longrightarrow>
   setattr_value self v =
     (case properties_validate p v of Inl e \<Rightarrow> Inl e | Inr r \<Rightarrow> Inr (self\<lparr>item_value := v\<rparr>))"
  by (simp add: setattr_value_def item_validate_def Let_def)

text \<open>The constructor when the truthy default replaces a \<^verbatim>\<open>None\<close> value.\<close>

lemma ConfigItem_default:
  assumes "truthy (default_value p)"
  shows "ConfigItem PyNone d (Some p) =
     (case properties_validate p (default_value p) of
        Inl e \<Rightarrow> Inl e
      | Inr r \<Rightarrow>
          Inr \<lparr>item_value = default_value p, doc = d, properties = Some p, validation = Some r\<rparr>)"
  using assms
  by (cases "properties_validate p (default_value p)")
     (simp_all add: ConfigItem_def Let_def setattr_value_Some)

text \<open>The constructor when the value given is kept.\<close>

lemma ConfigItem_no_default:
  assumes "v \<noteq> PyNone \<or> \<not> truthy (default_value p)"
  shows "ConfigItem v d (Some p) =
     (case properties_validate p v of
        Inl e \<Rightarrow> Inl e
      | Inr r \<Rightarrow> Inr \<lparr>item_value = v, doc = d, properties = Some p, validation = Some r\<rparr>)"
  using assms
proof
  assume "v \<noteq> PyNone"
  then show ?thesis
    by (cases "properties_validate p v") (simp_all add: ConfigItem_def Let_def)
next
  assume "\<not> truthy (default_value p)"
  then show ?thesis
    by (cases "properties_validate p v") (simp_all add: ConfigItem_def Let_def)
qed

lemma ConfigItem_None: "ConfigItem v d None = Inl AttributeError"
  by (simp add: ConfigItem_def)

subsection \<open>C10: the default of an item constructed with value None\<close>

text \<open>
  Claim C10: a \<^verbatim>\<open>ConfigItem\<close> constructed with value \<^verbatim>\<open>None\<close> and properties whose
  default is truthy stores the default as its value, and its cached validation is
  \<^verbatim>\<open>properties.validate(default)\<close>; with a falsy default the value stays \<^verbatim>\<open>None\<close> and
  the cached validation is \<^verbatim>\<open>properties.validate(None)\<close>.
\<close>

theorem ConfigItem_none_value_default:
  assumes "ConfigItem PyNone d (Some p) = Inr it"
  shows "(truthy (default_value p) \<longrightarrow>
            item_value it = default_value p
            \<and> (\<exists>r. properties_validate p (default_value p) = Inr r \<and> validation it = Some r))
       \<and> (\<not> truthy (default_value p) \<longrightarrow>
            item_value it = PyNone
            \<and> (\<exists>r. properties_validate p PyNone = Inr r \<and> validation it = Some r))"
proof (cases "truthy (default_value p)")
  case True
  with assms show ?thesis
    by (cases "properties_validate p (default_value p)") (auto simp: ConfigItem_default)
next
  case False
  then have "PyNone \<noteq> PyNone \<or> \<not> truthy (default_value p)" by simp
  from ConfigItem_no_default [OF this, of d] assms False show ?thesis
    by (cases "properties_validate p PyNone") auto
qed

theorem ConfigItem_none_value_default_witness:
  "(\<exists>it. ConfigItem PyNone None
           (Some \<lparr>allowed_types = Some [T_int], allow_null = Some False,
                   default_value = PyInt 5\<rparr>) = Inr it
        \<and> item_value it = PyInt 5
        \<and> validation it = Some \<lparr>passed = True, fail_reasons = [], fail_exceptions = []\<rparr>)
   \<and> (\<exists>it. ConfigItem PyNone None
           (Some \<lparr>allowed_types = Some [T_int], allow_null = Some False,
                   default_value = PyInt 0\<rparr>) = Inr it
        \<and> item_value it = PyNone
        \<and> validation it =
            Some \<lparr>passed = False,
                  fail_reasons = [NullNotPermitted PyNone, WrongType PyNone T_NoneType [T_int]],
                  fail_exceptions =
                    [ConfigItemValidationError (NullNotPermitted PyNone),
                     ConfigItemValidationError (WrongType PyNone T_NoneType [T_int])]\<rparr>)"
proof -
  let ?p5 = "\<lparr>allowed_types = Some [T_int], allow_null = Some False, default_value = PyInt 5\<rparr>"
  let ?p0 = "\<lparr>allowed_types = Some [T_int], allow_null = Some False, default_value = PyInt 0\<rparr>"
  obtain it5 where c5: "ConfigItem PyNone None (Some ?p5) = Inr it5"
    by (simp add: ConfigItem_default properties_validate_Some)
  obtain it0 where c0: "ConfigItem PyNone None (Some ?p0) = Inr it0"
    by (simp add: ConfigItem_no_default properties_validate_Some)
  from ConfigItem_none_value_default [OF c5]
  have "item_value it5 = PyInt 5
        \<and> validation it5 = Some \<lparr>passed = True, fail_reasons = [], fail_exceptions = []\<rparr>"
    by (auto simp: properties_validate_Some)
  moreover from ConfigItem_none_value_default [OF c0]
  have "item_value it0 = PyNone
        \<and> validation it0 =
            Some \<lparr>passed = False,
                  fail_reasons = [NullNotPermitted PyNone, WrongType PyNone T_NoneType [T_int]],
                  fail_exceptions =
                    [ConfigItemValidationError (NullNotPermitted PyNone),
                     ConfigItemValidationError (WrongType PyNone T_NoneType [T_int])]\<rparr>"
    by (auto simp: properties_validate_Some)
  ultimately show ?thesis using c5 c0 by blast
qed

subsection \<open>C1: the cached validation after a write\<close>

text \<open>
  Assignment to the attribute \<^verbatim>\<open>value\<close> calls \<^verbatim>\<open>validate()\<close> and drops the result: the
  cached \<open>validation\<close> is the one from before.
\<close>

lemma setattr_value_keeps_validation:
  "setattr_value it v = Inr it' \<Longrightarrow> it' = it\<lparr>item_value := v\<rparr>"
  by (auto simp: setattr_value_def Let_def split: sum.splits)

text \<open>
  Claim C1 as stated fails: an item constructed with the valid value \<^verbatim>\<open>5\<close> and then given
  the string \<^verbatim>\<open>'abc'\<close> by \<^verbatim>\<open>set_value\<close> holds the new value, while its cached validation
  still says passed; \<^verbatim>\<open>validate('abc')\<close> of its properties does not pass.
\<close>

theorem set_value_stale_validation_counterexample:
  "ConfigItem (PyInt 5) None
     (Some \<lparr>allowed_types = Some [T_int], allow_null = Some False, default_value = PyNone\<rparr>) =
     Inr \<lparr>item_value = PyInt 5, doc = None,
          properties = Some \<lparr>allowed_types = Some [T_int], allow_null = Some False,
                              default_value = PyNone\<rparr>,
          validation = Some \<lparr>passed = True, fail_reasons = [], fail_exceptions = []\<rparr>\<rparr>
   \<and> set_value
         \<lparr>item_value = PyInt 5, doc = None,
          properties = Some \<lparr>allowed_types = Some [T_int], allow_null = Some False,
                              default_value = PyNone\<rparr>,
          validation = Some \<lparr>passed = True, fail_reasons = [], fail_exceptions = []\<rparr>\<rparr>
         (PyStr ''abc'') =
       \<lparr>item_value = PyStr ''abc'', doc = None,
        properties = Some \<lparr>allowed_types = Some [T_int], allow_null = Some False,
                            default_value = PyNone\<rparr>,
        validation = Some \<lparr>passed = True, fail_reasons = [], fail_exceptions = []\<rparr>\<rparr>
   \<and> properties_validate
         \<lparr>allowed_types = Some [T_int], allow_null = Some False, default_value = PyNone\<rparr>
         (PyStr ''abc'') =
       Inr \<lparr>passed = False,
            fail_reasons = [WrongType (PyStr ''abc'') T_str [T_int]],
            fail_exceptions =
              [ConfigItemValidationError (WrongType (PyStr ''abc'') T_str [T_int])]\<rparr>"
  by (simp add: ConfigItem_no_default properties_validate_Some set_value_def)

text \<open>
  Claim C1, amended: \<^verbatim>\<open>set_value(v)\<close> stores \<^verbatim>\<open>v\<close> and changes nothing else; the cached
  \<open>validation\<close> field is the one from before the write (the method bypasses validation).
  The validation of the value now stored is what \<^verbatim>\<open>validate()\<close> returns: after
  \<^verbatim>\<open>set_value(v)\<close> it is \<^verbatim>\<open>properties.validate(v)\<close>, and a passed result when the item
  has no properties. The cached field agrees with the stored value right after construction.
\<close>

theorem set_value_bypasses_validation:
  "item_value (set_value it v) = v
   \<and> validation (set_value it v) = validation it
   \<and> doc (set_value it v) = doc it
   \<and> properties (set_value it v) = properties it
   \<and> (\<forall>p. properties it = Some p \<longrightarrow>
          item_validate (set_value it v) = properties_validate p v)
   \<and> (properties it = None \<longrightarrow>
          item_validate (set_value it v) = Inr (ConfigItemValidation True None None))
   \<and> (\<forall>d p it'. ConfigItem v d (Some p) = Inr it' \<longrightarrow>
          (\<exists>r. properties_validate p (item_value it') = Inr r \<and> validation it' = Some r))"
proof -
  have "\<exists>r. properties_validate p (item_value it') = Inr r \<and> validation it' = Some r"
    if c: "ConfigItem v d (Some p) = Inr it'" for d p it'
  proof (cases "v = PyNone \<and> truthy (default_value p)")
    case True
    with c show ?thesis
      by (cases "properties_validate p (default_value p)") (auto simp: ConfigItem_default)
  next
    case False
    then have "v \<noteq> PyNone \<or> \<not> truthy (default_value p)" by blast
    from ConfigItem_no_default [OF this, of d] c show ?thesis
      by (cases "properties_validate p v") auto
  qed
  then show ?thesis
    by (simp add: set_value_def item_validate_def)
qed

theorem set_value_bypasses_validation_witness:
  "item_validate
     (set_value
        \<lparr>item_value = PyInt 5, doc = None,
         properties = Some \<lparr>allowed_types = Some [T_int], allow_null = Some False,
                             default_value = PyNone\<rparr>,
         validation = Some \<lparr>passed = True, fail_reasons = [], fail_exceptions = []\<rparr>\<rparr>
        (PyStr ''abc'')) =
     Inr \<lparr>passed = False,
          fail_reasons = [WrongType (PyStr ''abc'') T_str [T_int]],
          fail_exceptions =
            [ConfigItemValidationError (WrongType (PyStr ''abc'') T_str [T_int])]\<rparr>"
proof -
  let ?p = "\<lparr>allowed_types = Some [T_int], allow_null = Some False, default_value = PyNone\<rparr>"
  let ?it = "\<lparr>item_value = PyInt 5, doc = None, properties = Some ?p,
              validation = Some \<lparr>passed = True, fail_reasons = [], fail_exceptions = []\<rparr>\<rparr>"
  have "properties ?it = Some ?p" by simp
  with set_value_bypasses_validation [of ?it "PyStr ''abc''"]
  have "item_validate (set_value ?it (PyStr ''abc'')) = properties_validate ?p (PyStr ''abc'')"
    by blast
  then show ?thesis by (simp add: properties_validate_Some)
qed

section \<open>Properties of recorded failures\<close>

subsection \<open>C4: one copy of a failure\<close>

text \<open>
  The elements of a list in the order of their first occurrence are
  \<open>rev (remdups (rev xs))\<close>: \<^const>\<open>remdups\<close> keeps the last occurrence of each element.
\<close>

lemma remdups_append_filter:
  "remdups (as @ bs) = remdups (filter (\<lambda>x. x \<notin> set bs) as) @ remdups bs"
  by (induction as) auto

lemma first_occurrences_append:
  "rev (remdups (rev (xs @ ys))) =
     rev (remdups (rev xs)) @ rev (remdups (rev (filter (\<lambda>x. x \<notin> set xs) ys)))"
  by (simp add: remdups_append_filter [of "rev ys" "rev xs"] rev_filter)

lemma first_occurrences_Cons:
  "rev (remdups (rev (x # ys))) = x # rev (remdups (rev (filter (\<lambda>y. y \<noteq> x) ys)))"
  using first_occurrences_append [of "[x]" ys] by simp

lemma group_add_validation_sel:
  "g_passed (group_add_validation g m e) = False"
  "g_fail_reasons (group_add_validation g m e) =
     (if m \<in> set (g_fail_reasons g) then g_fail_reasons g else g_fail_reasons g @ [m])"
  "g_fail_exceptions (group_add_validation g m e) =
     (if e \<in> set (g_fail_exceptions g) then g_fail_exceptions g else g_fail_exceptions g @ [e])"
  "element_validation (group_add_validation g m e) = element_validation g"
  by (simp_all add: group_add_validation_def)

lemma fold_group_add_validation_reasons:
  "distinct (g_fail_reasons g) \<Longrightarrow>
   g_fail_reasons (fold (\<lambda>(m, e) g. group_add_validation g m e) adds g) =
     g_fail_reasons g @
       rev (remdups (rev (filter (\<lambda>m. m \<notin> set (g_fail_reasons g)) (map fst adds))))"
proof (induction adds arbitrary: g)
  case Nil
  then show ?case by simp
next
  case (Cons a adds)
  obtain m e where a: "a = (m, e)" by (cases a)
  let ?g = "group_add_validation g m e"
  have d: "distinct (g_fail_reasons ?g)"
    using Cons.prems by (simp add: group_add_validation_sel)
  show ?case
  proof (cases "m \<in> set (g_fail_reasons g)")
    case True
    then show ?thesis
      using Cons.IH [OF d] by (simp add: a group_add_validation_sel)
  next
    case False
    then show ?thesis
      using Cons.IH [OF d]
        first_occurrences_Cons
          [of m "filter (\<lambda>m. m \<notin> set (g_fail_reasons g)) (map fst adds)"]
      by (simp add: a group_add_validation_sel conj_commute)
  qed
qed

lemma fold_group_add_validation_exceptions:
  "distinct (g_fail_exceptions g) \<Longrightarrow>
   g_fail_exceptions (fold (\<lambda>(m, e) g. group_add_validation g m e) adds g) =
     g_fail_exceptions g @
       rev (remdups (rev (filter (\<lambda>e. e \<notin> set (g_fail_exceptions g)) (map snd adds))))"
proof (induction adds arbitrary: g)
  case Nil
  then show ?case by simp
next
  case (Cons a adds)
  obtain m e where a: "a = (m, e)" by (cases a)
  let ?g = "group_add_validation g m e"
  have d: "distinct (g_fail_exceptions ?g)"
    using Cons.prems by (simp add: group_add_validation_sel)
  show ?case
  proof (cases "e \<in> set (g_fail_exceptions g)")
    case True
    then show ?thesis
      using Cons.IH [OF d] by (simp add: a group_add_validation_sel)
  next
    case False
    then show ?thesis
      using Cons.IH [OF d]
        first_occurrences_Cons
          [of e "filter (\<lambda>e. e \<notin> set (g_fail_exceptions g)) (map snd adds)"]
      by (simp add: a group_add_validation_sel conj_commute)
  qed
qed

lemma group_add_validation_idem:
  "group_add_validation (group_add_validation g m e) m e = group_add_validation g m e"
  by (simp add: group_add_validation_def)

lemma set_value_funpow:
  "validation (((\<lambda>it. set_value it v) ^^ n) it) = validation it
   \<and> properties (((\<lambda>it. set_value it v) ^^ n) it) = properties it
   \<and> (0 < n \<longrightarrow> item_value (((\<lambda>it. set_value it v) ^^ n) it) = v)"
  by (induction n) (simp_all add: set_value_def)

lemma properties_validate_reasons_distinct:
  assumes "properties_validate ps v = Inr r"
  shows "distinct (fail_reasons r) \<and> length (fail_reasons r) \<le> 2"
proof (cases "allowed_types ps")
  case None
  with assms show ?thesis
    by (simp add: properties_validate_None split: if_splits) auto
next
  case (Some ts)
  from assms have "r = projr (properties_validate ps v)" by simp
  then show ?thesis
    unfolding properties_validate_Some [OF Some] by simp
qed

text \<open>
  Claim C4 as stated, for the item-level result too, fails: \<^verbatim>\<open>ConfigItemValidation.add_validation\<close>
  appends without looking, so the same message added twice is recorded twice.
\<close>

theorem item_add_validation_duplicates_counterexample:
  "fail_reasons
     (item_add_validation
        (item_add_validation (ConfigItemValidation True None None)
           (NullNotPermitted PyNone) (ConfigItemValidationError (NullNotPermitted PyNone)))
        (NullNotPermitted PyNone) (ConfigItemValidationError (NullNotPermitted PyNone))) =
   [NullNotPermitted PyNone, NullNotPermitted PyNone]"
  by (simp add: item_add_validation_def ConfigItemValidation_def)

text \<open>
  Claim C4, amended. \<^verbatim>\<open>ConfigGroupValidation.add_validation\<close> appends a message, and a
  cause, only when it is not yet in its list: adding the same pair again changes nothing, and
  after any sequence of additions to a new group validation the recorded messages (causes) are
  the messages (causes) added, once each, in the order of their first addition.
  \<^verbatim>\<open>ConfigItemValidation.add_validation\<close> always appends. \<^verbatim>\<open>set_value\<close>, invoked any
  number of times, leaves the cached validation as it was, and \<^verbatim>\<open>validate()\<close> after N + 1
  invocations with the same value returns what it returns after one; a result of
  \<^verbatim>\<open>ItemTypeProperties.validate\<close> holds at most two messages, all different.
\<close>

theorem group_add_validation_dedup:
  "group_add_validation (group_add_validation g m e) m e = group_add_validation g m e
   \<and> g_fail_reasons
        (fold (\<lambda>(m, e) g. group_add_validation g m e) adds (ConfigGroupValidation b None None)) =
       rev (remdups (rev (map fst adds)))
   \<and> g_fail_exceptions
        (fold (\<lambda>(m, e) g. group_add_validation g m e) adds (ConfigGroupValidation b None None)) =
       rev (remdups (rev (map snd adds)))
   \<and> fail_reasons (item_add_validation iv m e) = fail_reasons iv @ [m]
   \<and> fail_exceptions (item_add_validation iv m e) = fail_exceptions iv @ [e]
   \<and> validation (((\<lambda>it. set_value it v) ^^ n) it) = validation it
   \<and> item_validate (((\<lambda>it. set_value it v) ^^ Suc n) it) = item_validate (set_value it v)
   \<and> (\<forall>r. properties_validate ps v = Inr r \<longrightarrow>
          distinct (fail_reasons r) \<and> length (fail_reasons r) \<le> 2)"
proof -
  have 1: "g_fail_reasons
             (fold (\<lambda>(m, e) g. group_add_validation g m e) adds
                (ConfigGroupValidation b None None)) =
             rev (remdups (rev (map fst adds)))"
    using fold_group_add_validation_reasons [of "ConfigGroupValidation b None None" adds]
    by (simp add: ConfigGroupValidation_def)
  have 2: "g_fail_exceptions
             (fold (\<lambda>(m, e) g. group_add_validation g m e) adds
                (ConfigGroupValidation b None None)) =
             rev (remdups (rev (map snd adds)))"
    using fold_group_add_validation_exceptions [of "ConfigGroupValidation b None None" adds]
    by (simp add: ConfigGroupValidation_def)
  let ?X = "((\<lambda>it. set_value it v) ^^ Suc n) it"
  have a: "properties ?X = properties it" "item_value ?X = v"
    using set_value_funpow [where v = v and n = "Suc n" and it = it]
    by (simp_all del: funpow.simps)
  have b: "properties (set_value it v) = properties it" "item_value (set_value it v) = v"
    by (simp_all add: set_value_def)
  have 3: "item_validate ?X = item_validate (set_value it v)"
    unfolding item_validate_def a b ..
  have 4: "validation (((\<lambda>it. set_value it v) ^^ n) it) = validation it"
    using set_value_funpow [where v = v and n = n and it = it] by blast
  have 5: "\<forall>r. properties_validate ps v = Inr r \<longrightarrow>
             distinct (fail_reasons r) \<and> length (fail_reasons r) \<le> 2"
    using properties_validate_reasons_distinct [of ps v] by blast
  have 6: "fail_reasons (item_add_validation iv m e) = fail_reasons iv @ [m]"
          "fail_exceptions (item_add_validation iv m e) = fail_exceptions iv @ [e]"
    by (simp_all add: item_add_validation_def)
  from group_add_validation_idem [of g m e] 1 2 3 4 5 6 show ?thesis
    by (intro conjI)
qed

theorem group_add_validation_dedup_witness:
  "g_fail_reasons
     (fold (\<lambda>(m, e) g. group_add_validation g m e)
        [(''a'', 1 :: nat), (''b'', 2), (''a'', 1)]
        (ConfigGroupValidation True None None)) = [''a'', ''b'']
   \<and> distinct
        (fail_reasons
           (projr (properties_validate
                     \<lparr>allowed_types = Some [T_int], allow_null = Some False,
                        default_value = PyNone\<rparr> PyNone)))"
proof -
  let ?ps = "\<lparr>allowed_types = Some [T_int], allow_null = Some False, default_value = PyNone\<rparr>"
  obtain r where r: "properties_validate ?ps PyNone = Inr r"
    by (simp add: properties_validate_Some)
  note t = group_add_validation_dedup
      [where adds = "[(''a'', 1 :: nat), (''b'', 2), (''a'', 1)]" and b = True
         and ps = ?ps and v = PyNone]
  have "g_fail_reasons
     (fold (\<lambda>(m, e) g. group_add_validation g m e)
        [(''a'', 1 :: nat), (''b'', 2), (''a'', 1)]
        (ConfigGroupValidation True None None)) = rev (remdups (rev (map fst
          [(''a'', 1 :: nat), (''b'', 2), (''a'', 1)])))"
    by (rule t [THEN conjunct2, THEN conjunct1])
  moreover have "distinct (fail_reasons r)"
    using t [THEN conjunct2, THEN conjunct2, THEN conjunct2, THEN conjunct2, THEN conjunct2,
             THEN conjunct2, THEN conjunct2, THEN spec, of r] r
    by simp
  ultimately show ?thesis using r by simp
qed

section \<open>Properties of the error tree\<close>

lemma update_not_Nil: "AList.update k v d \<noteq> []"
  by (cases d) auto

lemma to_dict_elements_not_Nil: "d \<noteq> [] \<Longrightarrow> to_dict_elements ev d \<noteq> []"
proof (induction ev arbitrary: d)
  case Nil
  then show ?case by simp
next
  case (Cons a ev)
  obtain k e where a: "a = (k, e)" by (cases a)
  show ?case
    using Cons.prems by (cases e) (auto simp: a update_not_Nil intro!: Cons.IH)
qed

lemma to_dict_elements_Nil_iff:
  "to_dict_elements ev [] = [] \<longleftrightarrow>
     (\<forall>(k, e) \<in> set ev. entry_passed e \<and> (case e of Inl iv \<Rightarrow> True | Inr gv \<Rightarrow> group_passed gv))"
proof (induction ev)
  case Nil
  then show ?case by simp
next
  case (Cons a ev)
  obtain k e where a: "a = (k, e)" by (cases a)
  show ?case
  proof (cases e)
    case (Inl iv)
    then show ?thesis
      using Cons.IH by (auto simp: a update_not_Nil to_dict_elements_not_Nil)
  next
    case (Inr gv)
    then show ?thesis
      using Cons.IH by (auto simp: a update_not_Nil to_dict_elements_not_Nil)
  qed
qed

text \<open>
  When \<^verbatim>\<open>to_dict\<close> answers \<^verbatim>\<open>"Passed"\<close>: the flag of the root is set, every entry of the
  root has its flag set, and every group entry of the root has \<^verbatim>\<open>group_passed\<close>. Nothing
  further down is looked at.
\<close>

lemma to_dict_Passed_iff:
  "to_dict gv element_name True = [(element_name, Passed)] \<longleftrightarrow>
     g_passed gv \<and>
     (\<forall>(k, e) \<in> set (element_validation gv).
        entry_passed e \<and> (case e of Inl iv \<Rightarrow> True | Inr g \<Rightarrow> group_passed g))"
proof (cases gv)
  case (GroupValidation p rs es ev)
  show ?thesis
  proof (cases p)
    case True
    then show ?thesis
      using to_dict_elements_Nil_iff [of ev] by (auto simp: GroupValidation Let_def)
  next
    case False
    then have "to_dict_elements ev [(''group'', Reasons rs)] \<noteq> []"
      by (simp add: to_dict_elements_not_Nil)
    with False show ?thesis by (simp add: GroupValidation Let_def)
  qed
qed

text \<open>
  Validating a group that holds a group that holds a group with one failing item gives a
  validation whose innermost entry has failed.
\<close>

lemma group_validate_deep_failure:
  "map_sum id snd (group_validate
     (Group None
        [(''a'', Inr (Group None
           [(''b'', Inr (Group None
              [(''x'', Inl \<lparr>item_value = PyStr ''q'', doc = None,
                             properties = Some \<lparr>allowed_types = Some [T_int],
                                                 allow_null = Some False,
                                                 default_value = PyNone\<rparr>,
                             validation = None\<rparr>)] None))] None))] None)) =
   Inr (GroupValidation True [] []
        [(''a'', Inr (GroupValidation True [] []
           [(''b'', Inr (GroupValidation True [] []
              [(''x'', Inl \<lparr>passed = False,
                             fail_reasons = [WrongType (PyStr ''q'') T_str [T_int]],
                             fail_exceptions =
                               [ConfigItemValidationError
                                  (WrongType (PyStr ''q'') T_str [T_int])]\<rparr>)]))]))])"
  by (simp add: item_validate_def properties_validate_Some ConfigGroupValidation_def
        add_element_validation_def)

subsection \<open>C7: the error tree of a failing leaf\<close>

text \<open>
  Claim C7 says that \<^verbatim>\<open>to_dict\<close> answers \<^verbatim>\<open>"Passed"\<close> exactly when the whole tree passed,
  and that one failing leaf adds one entry on the path from the root to that leaf. For the
  validation of the lemma above, a failing item three levels below the root, the code answers
  \<^verbatim>\<open>{"root": "Passed"}\<close>: the group \<^verbatim>\<open>a\<close> has its own flag set and its only entry
  \<^verbatim>\<open>b\<close> has its flag set, so \<^verbatim>\<open>a\<close> is left out. The same failing item one level higher
  is reported on its path.
\<close>

theorem to_dict_deep_failure_passed:
  "to_dict
     (GroupValidation True [] []
        [(''a'', Inr (GroupValidation True [] []
           [(''b'', Inr (GroupValidation True [] []
              [(''x'', Inl \<lparr>passed = False,
                             fail_reasons = [WrongType (PyStr ''q'') T_str [T_int]],
                             fail_exceptions =
                               [ConfigItemValidationError
                                  (WrongType (PyStr ''q'') T_str [T_int])]\<rparr>)]))]))])
     ''root'' True = [(''root'', Passed)]
   \<and> to_dict
     (GroupValidation True [] []
        [(''b'', Inr (GroupValidation True [] []
           [(''x'', Inl \<lparr>passed = False,
                          fail_reasons = [WrongType (PyStr ''q'') T_str [T_int]],
                          fail_exceptions =
                            [ConfigItemValidationError
                               (WrongType (PyStr ''q'') T_str [T_int])]\<rparr>)]))])
     ''root'' True =
     [(''root'', Nested [(''b'', Nested [(''x'', Reasons [WrongType (PyStr ''q'') T_str [T_int]])])])]"
  by (simp add: group_passed_def)

section \<open>Properties of group validation\<close>

text \<open>One step of the loop of \<^verbatim>\<open>validate_elements\<close>, for an element of either class.\<close>

lemma validate_elements_Cons:
  "validate_elements ((k, el) # rest) vld =
     (case element_validate el of
        Inl e \<Rightarrow> Inl e
      | Inr (el', x) \<Rightarrow>
          (case validate_elements rest (add_element_validation vld k x) of
             Inl e \<Rightarrow> Inl e
           | Inr (rest', vld') \<Rightarrow> Inr ((k, el') # rest', vld')))"
  by (cases el) (auto split: sum.splits)

lemma add_element_validation_sel:
  "g_passed (add_element_validation vld k x) = g_passed vld"
  "g_fail_reasons (add_element_validation vld k x) = g_fail_reasons vld"
  "g_fail_exceptions (add_element_validation vld k x) = g_fail_exceptions vld"
  "element_validation (add_element_validation vld k x) =
     AList.update k x (element_validation vld)"
  by (simp_all add: add_element_validation_def)

lemma validate_elements_result:
  assumes "validate_elements els vld = Inr (els', vld')" and "distinct (map fst els)"
  shows "g_passed vld' = g_passed vld
       \<and> g_fail_reasons vld' = g_fail_reasons vld
       \<and> g_fail_exceptions vld' = g_fail_exceptions vld
       \<and> map fst els' = map fst els
       \<and> (distinct (map fst (element_validation vld))
            \<longrightarrow> distinct (map fst (element_validation vld')))
       \<and> fst ` set (element_validation vld') = fst ` set (element_validation vld) \<union> fst ` set els
       \<and> (\<forall>k. k \<notin> fst ` set els \<longrightarrow>
              map_of (element_validation vld') k = map_of (element_validation vld) k)
       \<and> (\<forall>(k, el) \<in> set els.
              \<exists>el' x. element_validate el = Inr (el', x)
                     \<and> map_of (element_validation vld') k = Some x)"
  using assms
proof (induction els arbitrary: vld els' vld')
  case Nil
  then show ?case by simp
next
  case (Cons a els)
  obtain k el where a: "a = (k, el)" by (cases a)
  from Cons.prems(1) obtain el' x rest' where
    ev: "element_validate el = Inr (el', x)" and
    rec: "validate_elements els (add_element_validation vld k x) = Inr (rest', vld')" and
    els': "els' = (k, el') # rest'"
    unfolding a validate_elements_Cons by (auto split: sum.splits)
  from Cons.prems(2) have d: "distinct (map fst els)" and k: "k \<notin> fst ` set els"
    by (simp_all add: a)
  note IH = Cons.IH [OF rec d]
  have upd: "map_of (element_validation (add_element_validation vld k x)) =
        (map_of (element_validation vld))(k \<mapsto> x)"
    by (simp add: add_element_validation_sel update_conv')
  have keys: "fst ` set (element_validation (add_element_validation vld k x)) =
        insert k (fst ` set (element_validation vld))"
    by (simp add: add_element_validation_sel dom_update [symmetric]) (simp add: dom_update)
  have 1: "g_passed vld' = g_passed vld" "g_fail_reasons vld' = g_fail_reasons vld"
      "g_fail_exceptions vld' = g_fail_exceptions vld"
    using IH by (simp_all add: add_element_validation_sel)
  have 4: "map fst els' = map fst (a # els)"
    using IH by (simp add: els' a)
  have 5: "distinct (map fst (element_validation vld))
             \<longrightarrow> distinct (map fst (element_validation vld'))"
    using IH by (simp add: add_element_validation_sel distinct_update)
  have 6: "fst ` set (element_validation vld') =
             fst ` set (element_validation vld) \<union> fst ` set (a # els)"
    using IH keys by (auto simp: a)
  have 7: "\<forall>k'. k' \<notin> fst ` set (a # els) \<longrightarrow>
             map_of (element_validation vld') k' = map_of (element_validation vld) k'"
    using IH upd by (simp add: a)
  have "map_of (element_validation vld') k = Some x"
    using IH k upd by simp
  with ev have 8: "\<forall>(k', el0) \<in> set (a # els).
             \<exists>el' x. element_validate el0 = Inr (el', x)
                    \<and> map_of (element_validation vld') k' = Some x"
    using IH by (auto simp: a)
  from 1 4 5 6 7 8 show ?case by blast
qed

subsection \<open>C3: the flag of a group after validate\<close>

text \<open>
  Claim C3 as stated fails: \<^verbatim>\<open>validate()\<close> stores the validations of the elements and
  leaves \<^verbatim>\<open>passed\<close> alone. A group with no violated rule and one item that fails has
  \<^verbatim>\<open>passed\<close> true after \<^verbatim>\<open>validate()\<close>; that an element failed shows in
  \<^verbatim>\<open>group_passed\<close>, which is false.
\<close>

theorem group_validate_passed_counterexample:
  "map_sum id (\<lambda>(g, r). (g_passed r, group_passed r))
     (group_validate
        (Group None
           [(''x'', Inl \<lparr>item_value = PyStr ''q'', doc = None,
                          properties = Some \<lparr>allowed_types = Some [T_int],
                                              allow_null = Some False,
                                              default_value = PyNone\<rparr>,
                          validation = None\<rparr>)] None)) =
   Inr (True, False)"
  by (simp add: item_validate_def properties_validate_Some ConfigGroupValidation_def
        add_element_validation_def group_passed_def)

text \<open>
  Claim C3, amended. Let a group with distinctly named elements be validated, its validation
  object, if it has one, holding entries for names of its elements only. After
  \<^verbatim>\<open>validate()\<close> returns, the group holds the validation returned. The flag \<^verbatim>\<open>passed\<close>
  and the lists of reasons and exceptions are those the validation object had before the call
  (true and empty for an object the call creates), so the flag does not depend on the
  elements. \<^verbatim>\<open>element_validation\<close> has an entry for exactly the elements' names, each the
  result of that element's \<^verbatim>\<open>validate()\<close>, and \<^verbatim>\<open>group_passed\<close> is true if and only
  if every element's result has \<^verbatim>\<open>passed\<close> true.
\<close>

theorem group_validate_result:
  assumes "group_validate (Group d els v) = Inr (g', r)"
    and "distinct (map fst els)"
    and "\<forall>x. v = Some x \<longrightarrow>
           distinct (map fst (element_validation x))
           \<and> fst ` set (element_validation x) \<subseteq> fst ` set els"
  shows "g' = Group d (get_config_elements g') (Some r)
       \<and> map fst (get_config_elements g') = map fst els
       \<and> g_passed r = (case v of None \<Rightarrow> True | Some x \<Rightarrow> g_passed x)
       \<and> g_fail_reasons r = (case v of None \<Rightarrow> [] | Some x \<Rightarrow> g_fail_reasons x)
       \<and> g_fail_exceptions r = (case v of None \<Rightarrow> [] | Some x \<Rightarrow> g_fail_exceptions x)
       \<and> fst ` set (element_validation r) = fst ` set els
       \<and> (\<forall>(k, el) \<in> set els.
              \<exists>el' x. element_validate el = Inr (el', x)
                     \<and> map_of (element_validation r) k = Some x)
       \<and> (group_passed r \<longleftrightarrow>
            (\<forall>(k, el) \<in> set els.
               \<forall>el' x. element_validate el = Inr (el', x) \<longrightarrow> entry_passed x))"
proof -
  let ?v0 = "case v of None \<Rightarrow> ConfigGroupValidation True None None | Some x \<Rightarrow> x"
  from assms(1) obtain els' where
    ve: "validate_elements els ?v0 = Inr (els', r)" and g': "g' = Group d els' (Some r)"
    by (auto split: sum.splits)
  note R = validate_elements_result [OF ve assms(2)]
  have v0: "distinct (map fst (element_validation ?v0))"
       "fst ` set (element_validation ?v0) \<subseteq> fst ` set els"
    using assms(3) by (cases v; simp add: ConfigGroupValidation_def)+
  have sel: "g_passed ?v0 = (case v of None \<Rightarrow> True | Some x \<Rightarrow> g_passed x)"
       "g_fail_reasons ?v0 = (case v of None \<Rightarrow> [] | Some x \<Rightarrow> g_fail_reasons x)"
       "g_fail_exceptions ?v0 = (case v of None \<Rightarrow> [] | Some x \<Rightarrow> g_fail_exceptions x)"
    by (cases v; simp add: ConfigGroupValidation_def)+
  have dist: "distinct (map fst (element_validation r))"
    using R v0 by blast
  have keys: "fst ` set (element_validation r) = fst ` set els"
    using R v0 by blast
  have ent: "\<forall>(k, el) \<in> set els.
              \<exists>el' x. element_validate el = Inr (el', x)
                     \<and> map_of (element_validation r) k = Some x"
    using R by blast
  have gp: "group_passed r \<longleftrightarrow>
            (\<forall>(k, el) \<in> set els.
               \<forall>el' x. element_validate el = Inr (el', x) \<longrightarrow> entry_passed x)"
  proof
    assume p: "group_passed r"
    show "\<forall>(k, el) \<in> set els.
            \<forall>el' x. element_validate el = Inr (el', x) \<longrightarrow> entry_passed x"
    proof (clarify)
      fix k el el' x
      assume "(k, el) \<in> set els" and e: "element_validate el = Inr (el', x)"
      with ent have "map_of (element_validation r) k = Some x" by fastforce
      then have "(k, x) \<in> set (element_validation r)" by (rule map_of_SomeD)
      with p show "entry_passed x"
        by (auto simp: group_passed_def list_all_iff)
    qed
  next
    assume a: "\<forall>(k, el) \<in> set els.
            \<forall>el' x. element_validate el = Inr (el', x) \<longrightarrow> entry_passed x"
    have "entry_passed x" if "(k, x) \<in> set (element_validation r)" for k x
    proof -
      from that have "k \<in> fst ` set els" using keys by force
      then obtain el where el: "(k, el) \<in> set els" by auto
      with ent obtain el' x' where
        e: "element_validate el = Inr (el', x')" and
        m: "map_of (element_validation r) k = Some x'" by fastforce
      from that dist have "map_of (element_validation r) k = Some x" by simp
      with m have "x' = x" by simp
      with a el e show ?thesis by blast
    qed
    then show "group_passed r"
      by (auto simp: group_passed_def list_all_iff)
  qed
  have top: "g' = Group d (get_config_elements g') (Some r)"
       "map fst (get_config_elements g') = map fst els"
    using R by (simp_all add: g')
  have flags: "g_passed r = (case v of None \<Rightarrow> True | Some x \<Rightarrow> g_passed x)"
       "g_fail_reasons r = (case v of None \<Rightarrow> [] | Some x \<Rightarrow> g_fail_reasons x)"
       "g_fail_exceptions r = (case v of None \<Rightarrow> [] | Some x \<Rightarrow> g_fail_exceptions x)"
    using R sel by simp_all
  from top flags keys ent gp show ?thesis by (intro conjI)
qed

theorem group_validate_result_witness:
  "\<exists>g' r. group_validate
        (Group None
           [(''x'', Inl \<lparr>item_value = PyStr ''q'', doc = None,
                          properties = Some \<lparr>allowed_types = Some [T_int],
                                              allow_null = Some False,
                                              default_value = PyNone\<rparr>,
                          validation = None\<rparr>)] None) = Inr (g', r)
      \<and> g_passed r \<and> \<not> group_passed r \<and> fst ` set (element_validation r) = {''x''}"
proof -
  let ?item = "\<lparr>item_value = PyStr ''q'', doc = None,
                 properties = Some \<lparr>allowed_types = Some [T_int], allow_null = Some False,
                                     default_value = PyNone\<rparr>,
                 validation = None\<rparr>"
  let ?els = "[(''x'', Inl ?item)]"
  obtain g' r where gv: "group_validate (Group None ?els None) = Inr (g', r)"
    by (simp add: item_validate_def properties_validate_Some)
  have d: "distinct (map fst ?els)" by simp
  have w: "\<forall>x. (None :: (fail_reason, error) config_group_validation option) = Some x \<longrightarrow>
             distinct (map fst (element_validation x))
             \<and> fst ` set (element_validation x) \<subseteq> fst ` set ?els"
    by simp
  note t = group_validate_result [OF gv d w]
  have ev: "element_validate (Inl ?item) =
        Inr (Inl ?item,
             Inl \<lparr>passed = False,
                  fail_reasons = [WrongType (PyStr ''q'') T_str [T_int]],
                  fail_exceptions =
                    [ConfigItemValidationError (WrongType (PyStr ''q'') T_str [T_int])]\<rparr>)"
    by (simp add: item_validate_def properties_validate_Some)
  from t have "g_passed r" by simp
  moreover from t have "fst ` set (element_validation r) = {''x''}" by simp
  moreover from t ev have "\<not> group_passed r" by simp
  ultimately show ?thesis using gv by blast
qed

section \<open>Properties of set_from_dict\<close>

text \<open>
  Replacing the value of a key that is present, in a dictionary with distinct keys, changes
  the entry of that key and no other.
\<close>

lemma update_distinct_map:
  "distinct (map fst els) \<Longrightarrow> map_of els k = Some el \<Longrightarrow>
   AList.update k v els = map (\<lambda>(k', e). (k', if k' = k then v else e)) els"
proof (induction els)
  case Nil
  then show ?case by simp
next
  case (Cons a els)
  obtain k0 e0 where a: "a = (k0, e0)" by (cases a)
  show ?case
  proof (cases "k0 = k")
    case True
    with Cons.prems have "k \<notin> fst ` set els" by (simp add: a)
    then have "map (\<lambda>(k', e). (k', if k' = k then v else e)) els = els"
      by (induction els) auto
    with True show ?thesis by (simp add: a)
  next
    case False
    with Cons show ?thesis by (simp add: a)
  qed
qed

lemma set_elements_map:
  assumes "distinct (map fst els)" and "distinct (map fst cd)"
  shows "set_elements els cd =
     map (\<lambda>(k, el). (k, case map_of cd k of None \<Rightarrow> el | Some x \<Rightarrow> set_element el x)) els"
  using assms
proof (induction cd arbitrary: els)
  case Nil
  then show ?case by (simp add: case_prod_unfold)
next
  case (Cons a cd)
  obtain k x where a: "a = (k, x)" by (cases a)
  from Cons.prems have d: "distinct (map fst cd)" and k: "map_of cd k = None"
    by (simp_all add: a map_of_eq_None_iff)
  show ?case
  proof (cases "map_of els k")
    case None
    then have "\<forall>(k', el) \<in> set els. k' \<noteq> k"
      by (force simp: map_of_eq_None_iff)
    then have "map (\<lambda>(k', el). (k', case map_of (a # cd) k' of None \<Rightarrow> el
                                        | Some x \<Rightarrow> set_element el x)) els =
               map (\<lambda>(k', el). (k', case map_of cd k' of None \<Rightarrow> el
                                        | Some x \<Rightarrow> set_element el x)) els"
      by (auto simp: a)
    with None Cons.IH [OF Cons.prems(1) d] show ?thesis by (simp add: a)
  next
    case (Some el)
    let ?els1 = "AList.update k (set_element el x) els"
    have e1: "?els1 = map (\<lambda>(k', e). (k', if k' = k then set_element el x else e)) els"
      using Cons.prems(1) Some by (rule update_distinct_map)
    have d1: "distinct (map fst ?els1)"
      using Cons.prems(1) by (simp add: distinct_update)
    have el: "\<forall>(k', e) \<in> set els. k' = k \<longrightarrow> e = el"
      using Cons.prems(1) Some by (auto dest: eq_key_imp_eq_value)
    have "set_elements els (a # cd) = set_elements ?els1 cd"
      by (simp add: a Some)
    also have "\<dots> = map (\<lambda>(k, el). (k, case map_of cd k of None \<Rightarrow> el
                                        | Some x \<Rightarrow> set_element el x)) ?els1"
      by (rule Cons.IH [OF d1 d])
    also have "\<dots> = map (\<lambda>(k', el). (k', case map_of (a # cd) k' of None \<Rightarrow> el
                                        | Some x \<Rightarrow> set_element el x)) els"
      unfolding e1 using el k by (auto simp: a)
    finally show ?thesis .
  qed
qed

lemma map_of_filter_key:
  "P k \<Longrightarrow> map_of (filter (\<lambda>(k', x). P k') cd) k = map_of cd k"
  by (induction cd) auto

lemma set_from_dict_False:
  "set_from_dict (Group d els v) cd False = Inr (Group d (set_elements els cd) v)"
  by (simp add: set_from_dict_def)

lemma set_from_dict_True:
  "set_from_dict (Group d els v) cd True =
     map_sum id fst (group_validate (Group d (set_elements els cd) v))"
  by (simp add: set_from_dict_def)

subsection \<open>C8: what set_from_dict assigns\<close>

text \<open>
  Claim C8. Let the group's elements and the keys of \<^verbatim>\<open>config_dict\<close> be distinct, as
  attribute names and dictionary keys are. With \<^verbatim>\<open>root=False\<close> the call raises nothing and
  returns the group with every element named by a key replaced by the result of the loop body
  for that key's value, every other element as it was, and the group's \<^verbatim>\<open>doc\<close> and
  validation untouched. With \<^verbatim>\<open>root=True\<close> the result is that of \<^verbatim>\<open>validate()\<close> on
  this same group, so the validation comes after all assignments. Keys that name no element can
  be removed from the dictionary without changing the result. The loop body passes a
  dictionary on to a group with \<^verbatim>\<open>root=False\<close>, gives a value that is no dictionary to an
  item's \<^verbatim>\<open>set_value\<close>, and leaves an element alone when a dictionary meets an item or
  another value meets a group.
\<close>

theorem set_from_dict_assigns_named_children:
  assumes "distinct (map fst els)" and "distinct (map fst config_dict)"
  shows "set_from_dict (Group d els v) config_dict False =
           Inr (Group d
                  (map (\<lambda>(k, el). (k, case map_of config_dict k of
                                         None \<Rightarrow> el
                                       | Some x \<Rightarrow> set_element el x)) els)
                  v)
       \<and> set_from_dict (Group d els v) config_dict True =
           map_sum id fst
             (group_validate
                (Group d
                   (map (\<lambda>(k, el). (k, case map_of config_dict k of
                                          None \<Rightarrow> el
                                        | Some x \<Rightarrow> set_element el x)) els)
                   v))
       \<and> (\<forall>is_root.
             set_from_dict (Group d els v)
               (filter (\<lambda>(k, x). k \<in> fst ` set els) config_dict) is_root =
             set_from_dict (Group d els v) config_dict is_root)
       \<and> (\<forall>g cd. \<exists>g'. set_from_dict g cd False = Inr g'
                       \<and> set_element (Inr g) (Dict cd) = Inr g')
       \<and> (\<forall>item x. set_element (Inl item) (Scalar x) = Inl (set_value item x))
       \<and> (\<forall>item cd. set_element (Inl item) (Dict cd) = Inl item)
       \<and> (\<forall>g x. set_element (Inr g) (Scalar x) = Inr g)"
proof -
  let ?F = "\<lambda>cd. map (\<lambda>(k, el). (k, case map_of cd k of
                                       None \<Rightarrow> el
                                     | Some x \<Rightarrow> set_element el x)) els"
  let ?cd' = "filter (\<lambda>(k, x). k \<in> fst ` set els) config_dict"
  note m = set_elements_map [OF assms]
  have d': "distinct (map fst ?cd')"
    using assms(2) by (rule distinct_map_filter)
  have "map_of ?cd' k = map_of config_dict k" if "(k, el) \<in> set els" for k el
  proof -
    from that have "k \<in> fst ` set els" by force
    then show ?thesis
      by (rule map_of_filter_key [where P = "\<lambda>k. k \<in> fst ` set els"])
  qed
  then have "?F ?cd' = ?F config_dict"
    by (intro map_cong [OF refl]) (auto simp del: map_of_eq_None_iff)
  then have f: "set_elements els ?cd' = set_elements els config_dict"
    by (simp only: m set_elements_map [OF assms(1) d'])
  have 3: "\<forall>is_root. set_from_dict (Group d els v) ?cd' is_root =
             set_from_dict (Group d els v) config_dict is_root"
    by (simp add: set_from_dict_def f)
  have 4: "\<forall>g cd. \<exists>g'. set_from_dict g cd False = Inr g'
                       \<and> set_element (Inr g) (Dict cd) = Inr g'"
  proof (intro allI)
    fix g cd
    show "\<exists>g'. set_from_dict g cd False = Inr g' \<and> set_element (Inr g) (Dict cd) = Inr g'"
      by (cases g) (simp add: set_from_dict_False)
  qed
  have 5: "\<forall>item x. set_element (Inl item) (Scalar x) = Inl (set_value item x)"
          "\<forall>item cd. set_element (Inl item) (Dict cd) = Inl item"
          "\<forall>g x. set_element (Inr g) (Scalar x) = Inr g"
    by simp_all
  have 1: "set_from_dict (Group d els v) config_dict False = Inr (Group d (?F config_dict) v)"
    by (simp only: set_from_dict_False m)
  have 2: "set_from_dict (Group d els v) config_dict True =
             map_sum id fst (group_validate (Group d (?F config_dict) v))"
    by (simp only: set_from_dict_True m)
  from 1 2 3 4 5 show ?thesis by (intro conjI)
qed

theorem set_from_dict_assigns_named_children_witness:
  "set_from_dict
     (Group None
        [(''a'', Inr (Group None
                  [(''x'', Inl \<lparr>item_value = PyInt 1, doc = None, properties = None,
                                 validation = None\<rparr>)] None)),
         (''y'', Inl \<lparr>item_value = PyInt 2, doc = None, properties = None,
                        validation = None\<rparr>),
         (''z'', Inl \<lparr>item_value = PyInt 3, doc = None, properties = None,
                        validation = None\<rparr>)] None)
     [(''y'', Scalar (PyInt 7)), (''unknown'', Scalar PyNone),
      (''a'', Dict [(''x'', Scalar (PyStr ''q''))])]
     False =
   Inr (Group None
        [(''a'', Inr (Group None
                  [(''x'', Inl \<lparr>item_value = PyStr ''q'', doc = None, properties = None,
                                 validation = None\<rparr>)] None)),
         (''y'', Inl \<lparr>item_value = PyInt 7, doc = None, properties = None,
                        validation = None\<rparr>),
         (''z'', Inl \<lparr>item_value = PyInt 3, doc = None, properties = None,
                        validation = None\<rparr>)] None)"
proof -
  let ?els = "[(''a'', Inr (Group None
                  [(''x'', Inl \<lparr>item_value = PyInt 1, doc = None, properties = None,
                                 validation = None\<rparr>)] None)),
         (''y'', Inl \<lparr>item_value = PyInt 2, doc = None, properties = None,
                        validation = None\<rparr>),
         (''z'', Inl \<lparr>item_value = PyInt 3, doc = None, properties = None,
                        validation = None\<rparr>)]"
  let ?cd = "[(''y'', Scalar (PyInt 7)), (''unknown'', Scalar PyNone),
      (''a'', Dict [(''x'', Scalar (PyStr ''q''))])]"
  have d1: "distinct (map fst ?els)" by simp
  have d2: "distinct (map fst ?cd)" by simp
  from set_from_dict_assigns_named_children [OF d1 d2, of None None, THEN conjunct1]
  show ?thesis by (simp add: set_value_def)
qed

end
